theory Spec2Isabelle
  imports Main "HOL-Library.Product_Lexorder"
begin

section \<open>Values, errors and the pandas/json primitives used by dd.py\<close>

text \<open>
  A Python value as it can stand in a cell of \<open>raw_df\<close>, in a decoded JSON document or
  in an argument of \<open>process_user_data\<close>. \<open>PNaN\<close> is the missing marker of pandas
  (float NaN in an object column, NaT in a datetime column); \<open>PTimestamp\<close> carries
  the int64 nanoseconds since the Unix epoch of a datetime64[ns] cell.
\<close>

datatype pyval =
    PNone
  | PNaN
  | PBool bool
  | PInt int
  | PStr string
  | PTimestamp int
  | PList "pyval list"
  | PDict "(string \<times> pyval) list"

text \<open>The exceptions the modelled statements can raise.\<close>

datatype py_error = KeyError | ValueError | TypeError | AttributeError | UnboundLocalError

text \<open>Python truthiness, as used by \<open>or\<close> and \<open>not\<close> (NaN is a non-zero float: true).\<close>

fun truthy :: "pyval \<Rightarrow> bool" where
  "truthy PNone = False"
| "truthy PNaN = True"
| "truthy (PBool b) = b"
| "truthy (PInt n) = (n \<noteq> 0)"
| "truthy (PStr s) = (s \<noteq> [])"
| "truthy (PTimestamp t) = True"
| "truthy (PList xs) = (xs \<noteq> [])"
| "truthy (PDict d) = (d \<noteq> [])"

text \<open>\<open>pd.isna\<close> of a scalar.\<close>

fun isna :: "pyval \<Rightarrow> bool" where
  "isna PNone = True"
| "isna PNaN = True"
| "isna _ = False"

text \<open>
  The truth value of \<open>pd.isna(v)\<close> where the source uses it as a condition. For a
  list \<open>pd.isna\<close> answers element-wise with an array, and the truth value of an array
  is that of its only element, \<open>False\<close> when it is empty (numpy before 2.2; later
  versions raise there too) and a \<open>ValueError\<close> when it has several elements.
\<close>

fun isna_truth :: "pyval \<Rightarrow> py_error + bool" where
  "isna_truth (PList []) = Inr False"
| "isna_truth (PList [x]) = isna_truth x"
| "isna_truth (PList (x # y # zs)) = Inl ValueError"
| "isna_truth v = Inr (isna v)"

text \<open>The truth value of \<open>pd.notna(v)\<close>, by the same rule.\<close>

fun notna_truth :: "pyval \<Rightarrow> py_error + bool" where
  "notna_truth (PList []) = Inr False"
| "notna_truth (PList [x]) = notna_truth x"
| "notna_truth (PList (x # y # zs)) = Inl ValueError"
| "notna_truth v = Inr (\<not> isna v)"

text \<open>Lists and dicts are unhashable: a dict membership test on them raises \<open>TypeError\<close>.\<close>

fun hashable :: "pyval \<Rightarrow> bool" where
  "hashable (PList xs) = False"
| "hashable (PDict d) = False"
| "hashable _ = True"

text \<open>\<open>d.get(k)\<close>: the value, or \<open>None\<close> when the key is absent.\<close>

definition dict_get :: "(string \<times> pyval) list \<Rightarrow> string \<Rightarrow> pyval" where
  "dict_get d k = (case map_of d k of Some v \<Rightarrow> v | None \<Rightarrow> PNone)"

section \<open>Participant normalizer: process_user_data (lines 92-164)\<close>

text \<open>
  One role relation, the dict built at lines 146-153. The event identifier is passed
  through unchanged, so its type is a parameter.
\<close>

record 'c relation =
  comm_id :: 'c
  user_id :: int
  isAttendee :: int
  isParticipant :: int
  isSpeaker :: int
  isOrganiser :: int

text \<open>Lines 146-162: all flags 0, then the flag of the role; an unknown role sets none.\<close>

definition make_relation :: "'c \<Rightarrow> int \<Rightarrow> string \<Rightarrow> 'c relation" where
  "make_relation c u role_type =
     \<lparr> comm_id = c, user_id = u,
       isAttendee = (if role_type = ''attendees'' then 1 else 0),
       isParticipant = (if role_type = ''participants'' then 1 else 0),
       isSpeaker = (if role_type = ''speakers'' then 1 else 0),
       isOrganiser = (if role_type = ''organizer'' then 1 else 0) \<rparr>"

text \<open>Line 99: \<open>pd.isna(user_list_str) or user_list_str == '[]'\<close>.\<close>

definition is_empty_payload :: "pyval \<Rightarrow> py_error + bool" where
  "is_empty_payload v =
     (case isna_truth v of
        Inl e \<Rightarrow> Inl e
      | Inr na \<Rightarrow> Inr (na \<or> v = PStr ''[]''))"

text \<open>The person made of a bare string: lines 109 and 119.\<close>

definition person_of_string :: "string \<Rightarrow> pyval" where
  "person_of_string s = PDict [(''email'', PStr s), (''name'', PStr s)]"

text \<open>
  Lines 101-112. \<open>loads\<close> is \<open>json.loads\<close> on text, \<open>None\<close> standing for
  \<open>JSONDecodeError\<close>; on anything that is not text \<open>json.loads\<close> raises
  \<open>TypeError\<close>. The handler of \<open>TypeError\<close> binds \<open>users_raw\<close> only when the value is
  not a list, so for a list the \<open>for\<close> statement of line 115 reads an unbound
  local.
\<close>

definition load_users :: "(string \<Rightarrow> pyval option) \<Rightarrow> pyval \<Rightarrow> py_error + pyval list" where
  "load_users loads v =
     (case v of
        PStr s \<Rightarrow>
          (case loads s of
             None \<Rightarrow> Inr [person_of_string s]
           | Some (PList us) \<Rightarrow> Inr us
           | Some j \<Rightarrow> Inr [j])
      | PList us \<Rightarrow> Inl UnboundLocalError
      | _ \<Rightarrow> Inr [v])"

text \<open>Lines 117-121: a dict is taken as it is, a string becomes a person, the rest is skipped.\<close>

definition as_user_dict :: "pyval \<Rightarrow> (string \<times> pyval) list option" where
  "as_user_dict user_info =
     (case user_info of
        PDict d \<Rightarrow> Some d
      | PStr s \<Rightarrow> Some [(''email'', PStr s), (''name'', PStr s)]
      | _ \<Rightarrow> None)"

text \<open>Line 129: \<open>not email or pd.isna(email)\<close>.\<close>

definition email_absent :: "pyval \<Rightarrow> py_error + bool" where
  "email_absent email = (if \<not> truthy email then Inr True else isna_truth email)"

text \<open>
  Lines 116-163 for one element of \<open>users_raw\<close>. The function assigns
  \<open>user_id_counter\<close> (line 142, \<open>+=\<close>) and declares it nowhere \<open>global\<close>, so the
  name is local to \<open>process_user_data\<close> and line 133, which reads it before any
  assignment, raises \<open>UnboundLocalError\<close>; the right-hand side is evaluated first, so
  \<open>user_email_to_id\<close> is not written either. (Line 135 would next read the undefined
  name \<open>user_id_to_id\<close>.) Hence nothing in the function changes \<open>user_email_to_id\<close>
  or \<open>all_users\<close>: both are read-only here, and the attributes of lines 124-127 are
  used by no statement that completes.
\<close>

definition process_one ::
  "(pyval \<rightharpoonup> int) \<Rightarrow> 'c \<Rightarrow> string \<Rightarrow> pyval \<Rightarrow> py_error + 'c relation list" where
  "process_one user_email_to_id c role_type user_info =
     (case as_user_dict user_info of
        None \<Rightarrow> Inr []
      | Some d \<Rightarrow>
          (case email_absent (dict_get d ''email'') of
             Inl e \<Rightarrow> Inl e
           | Inr True \<Rightarrow> Inr []
           | Inr False \<Rightarrow>
               if \<not> hashable (dict_get d ''email'') then Inl TypeError
               else
                 (case user_email_to_id (dict_get d ''email'') of
                    None \<Rightarrow> Inl UnboundLocalError
                  | Some u \<Rightarrow> Inr [make_relation c u role_type])))"

text \<open>
  Statements run one after the other, each giving an error or a list of results: the
  first exception ends the run, otherwise the lists are appended in order.
\<close>

fun collect :: "('e + 'a list) list \<Rightarrow> 'e + 'a list" where
  "collect [] = Inr []"
| "collect (Inl e # rest) = Inl e"
| "collect (Inr xs # rest) =
     (case collect rest of Inl e \<Rightarrow> Inl e | Inr ys \<Rightarrow> Inr (xs @ ys))"

text \<open>The loop of line 115 over \<open>users_raw\<close>.\<close>

definition process_users ::
  "(pyval \<rightharpoonup> int) \<Rightarrow> 'c \<Rightarrow> string \<Rightarrow> pyval list \<Rightarrow> py_error + 'c relation list" where
  "process_users m c role_type us = collect (map (process_one m c role_type) us)"

definition process_user_data ::
  "(string \<Rightarrow> pyval option) \<Rightarrow> (pyval \<rightharpoonup> int) \<Rightarrow> 'c \<Rightarrow> pyval \<Rightarrow> string
     \<Rightarrow> py_error + 'c relation list" where
  "process_user_data loads user_email_to_id c user_list_str role_type =
     (case is_empty_payload user_list_str of
        Inl e \<Rightarrow> Inl e
      | Inr True \<Rightarrow> Inr []
      | Inr False \<Rightarrow>
          (case load_users loads user_list_str of
             Inl e \<Rightarrow> Inl e
           | Inr us \<Rightarrow> process_users user_email_to_id c role_type us))"

section \<open>The frame and the loop over its rows (lines 166-187)\<close>

text \<open>
  \<open>raw_df\<close>: the columns in order, each a label with its cells; every column has one
  cell per row. A frame read from CSV has distinct labels; a rename can make two
  columns share one.
\<close>

type_synonym frame = "(string \<times> pyval list) list"

definition n_rows :: "frame \<Rightarrow> nat" where
  "n_rows df = (case df of [] \<Rightarrow> 0 | (c, vs) # rest \<Rightarrow> length vs)"

definition row_at :: "frame \<Rightarrow> nat \<Rightarrow> (string \<times> pyval) list" where
  "row_at df i = map (\<lambda>(c, vs). (c, vs ! i)) df"

definition iterrows :: "frame \<Rightarrow> (string \<times> pyval) list list" where
  "iterrows df = map (row_at df) [0..<n_rows df]"

text \<open>Lines 173-179: the organizer as a person structure.\<close>

definition organizer_info :: "(string \<times> pyval) list \<Rightarrow> pyval" where
  "organizer_info row =
     PDict [(''email'', dict_get row ''organizer_email''),
            (''name'', (case map_of row ''organizer_name'' of
                          Some v \<Rightarrow> v
                        | None \<Rightarrow> dict_get row ''organizer_email'')),
            (''location'', dict_get row ''organizer_location''),
            (''displayName'', dict_get row ''organizer_display_name''),
            (''phoneNumber'', dict_get row ''organizer_phone_number'')]"

text \<open>Lines 171-181; \<open>dumps\<close> is \<open>json.dumps\<close>.\<close>

definition organizer_relations ::
  "(string \<Rightarrow> pyval option) \<Rightarrow> (pyval \<Rightarrow> string) \<Rightarrow> (pyval \<rightharpoonup> int) \<Rightarrow> 'c
     \<Rightarrow> (string \<times> pyval) list \<Rightarrow> py_error + 'c relation list" where
  "organizer_relations loads dumps m c row =
     (if ''organizer_email'' \<in> set (map fst row) then
        (case notna_truth (dict_get row ''organizer_email'') of
           Inl e \<Rightarrow> Inl e
         | Inr False \<Rightarrow> Inr []
         | Inr True \<Rightarrow>
             process_user_data loads m c (PStr (dumps (PList [organizer_info row])))
               ''organizer'')
      else Inr [])"

text \<open>Lines 184-187 for one of the three list-valued columns; the role is the column's name.\<close>

definition role_relations ::
  "(string \<Rightarrow> pyval option) \<Rightarrow> (pyval \<rightharpoonup> int) \<Rightarrow> 'c \<Rightarrow> (string \<times> pyval) list \<Rightarrow> string
     \<Rightarrow> py_error + 'c relation list" where
  "role_relations loads m c row col_name =
     (if col_name \<in> set (map fst row) then
        (case notna_truth (dict_get row col_name) of
           Inl e \<Rightarrow> Inl e
         | Inr False \<Rightarrow> Inr []
         | Inr True \<Rightarrow> process_user_data loads m c (dict_get row col_name) col_name)
      else Inr [])"

text \<open>The body of the loop of line 167 for one row.\<close>

definition row_relations ::
  "(string \<Rightarrow> pyval option) \<Rightarrow> (pyval \<Rightarrow> string) \<Rightarrow> (pyval \<rightharpoonup> int)
     \<Rightarrow> (string \<times> pyval) list \<Rightarrow> py_error + pyval relation list" where
  "row_relations loads dumps m row =
     (case map_of row ''comm_id'' of
        None \<Rightarrow> Inl KeyError
      | Some c \<Rightarrow>
          collect [organizer_relations loads dumps m c row,
                   role_relations loads m c row ''attendees'',
                   role_relations loads m c row ''participants'',
                   role_relations loads m c row ''speakers''])"

text \<open>
  Lines 92-95 and 166-187: \<open>comm_user_relations\<close> after the loop.
  \<open>user_email_to_id\<close> starts empty and no statement that completes writes it.
\<close>

definition comm_user_relations ::
  "(string \<Rightarrow> pyval option) \<Rightarrow> (pyval \<Rightarrow> string) \<Rightarrow> frame \<Rightarrow> py_error + pyval relation list" where
  "comm_user_relations loads dumps raw_df =
     collect (map (row_relations loads dumps Map.empty) (iterrows raw_df))"

section \<open>Role bridge aggregator (lines 198-205)\<close>

text \<open>\<open>max\<close> of a non-empty group of flags.\<close>

fun max_flag :: "int list \<Rightarrow> int" where
  "max_flag [] = 0"
| "max_flag (x # xs) = fold max xs x"

definition group_rows :: "('c \<times> int) \<Rightarrow> 'c relation list \<Rightarrow> 'c relation list" where
  "group_rows k rels = filter (\<lambda>r. (comm_id r, user_id r) = k) rels"

text \<open>
  \<open>groupby(['comm_id', 'user_id']).agg(max).reset_index()\<close>: one row per key, the
  keys in ascending order. An empty \<open>comm_user_relations\<close> gives a frame without
  columns, on which \<open>groupby\<close> raises \<open>KeyError\<close>. The key type stands for the present
  identifiers (\<open>groupby\<close> leaves out a row whose key is missing).
\<close>

definition bridge_comm_user :: "('c::linorder) relation list \<Rightarrow> py_error + 'c relation list" where
  "bridge_comm_user rels =
     (if rels = [] then Inl KeyError
      else Inr (map (\<lambda>k. \<lparr> comm_id = fst k, user_id = snd k,
                           isAttendee = max_flag (map isAttendee (group_rows k rels)),
                           isParticipant = max_flag (map isParticipant (group_rows k rels)),
                           isSpeaker = max_flag (map isSpeaker (group_rows k rels)),
                           isOrganiser = max_flag (map isOrganiser (group_rows k rels)) \<rparr>)
                  (sort (remdups (map (\<lambda>r. (comm_id r, user_id r)) rels)))))"

section \<open>Preprocessing (lines 31-44)\<close>

text \<open>
  \<open>drop_duplicates(keep='first')\<close>: the mask of the cells not seen before (missing
  values count as equal to each other), and the rows a mask keeps.
\<close>

fun first_seen :: "'a list \<Rightarrow> 'a list \<Rightarrow> bool list" where
  "first_seen seen [] = []"
| "first_seen seen (x # xs) = (x \<notin> set seen) # first_seen (x # seen) xs"

definition keep_rows :: "bool list \<Rightarrow> 'a list \<Rightarrow> 'a list" where
  "keep_rows keep vs = map snd (filter fst (zip keep vs))"

definition drop_duplicates :: "'a list \<Rightarrow> 'a list" where
  "drop_duplicates vs = keep_rows (first_seen [] vs) vs"

text \<open>Lines 32-35; \<open>raw_df['comm_id']\<close> raises \<open>KeyError\<close> without the column.\<close>

definition dedupe_comm_id :: "frame \<Rightarrow> py_error + frame" where
  "dedupe_comm_id raw_df =
     (case map_of raw_df ''comm_id'' of
        None \<Rightarrow> Inl KeyError
      | Some ids \<Rightarrow>
          if distinct ids then Inr raw_df
          else Inr (map (\<lambda>(c, vs). (c, keep_rows (first_seen [] ids) vs)) raw_df))"

text \<open>
  Lines 38-44. \<open>to_datetime\<close> is \<open>pd.to_datetime\<close> on one cell with
  \<open>errors='coerce'\<close>: the nanoseconds since the epoch, or \<open>None\<close> for what does not
  parse, which becomes NaT.
\<close>

definition datetime_cols :: "string list" where
  "datetime_cols = [''created_at'', ''updated_at'', ''start_time'', ''end_time'']"

definition coerce_datetimes :: "(pyval \<Rightarrow> int option) \<Rightarrow> frame \<Rightarrow> frame" where
  "coerce_datetimes to_datetime raw_df =
     map (\<lambda>(c, vs).
            if c \<in> set datetime_cols
            then (c, map (\<lambda>v. case to_datetime v of Some ns \<Rightarrow> PTimestamp ns | None \<Rightarrow> PNaN) vs)
            else (c, vs)) raw_df"

definition preprocess :: "(pyval \<Rightarrow> int option) \<Rightarrow> frame \<Rightarrow> py_error + frame" where
  "preprocess to_datetime raw_df =
     (case dedupe_comm_id raw_df of
        Inl e \<Rightarrow> Inl e
      | Inr df \<Rightarrow> Inr (coerce_datetimes to_datetime df))"

section \<open>Dimension tables (lines 52-87 and 210-296)\<close>

text \<open>
  A dimension is its rows in order, each the surrogate key with the natural value.
  \<open>range(1, len + 1)\<close> numbers the rows from 1.
\<close>

definition surrogate_keys :: "pyval list \<Rightarrow> (int \<times> pyval) list" where
  "surrogate_keys ks = zip (map int [1..<Suc (length ks)]) ks"

definition dropna :: "pyval list \<Rightarrow> pyval list" where
  "dropna vs = filter (\<lambda>v. \<not> isna v) vs"

text \<open>
  \<open>dim.set_index(natural)[key].to_dict()\<close>: a later row wins a repeated natural value.
  The mapping is read through \<open>Series.map\<close>, whose lookup finds a missing natural
  value under a missing cell, as equality of \<open>PNaN\<close> does here.
\<close>

definition to_dict :: "(int \<times> pyval) list \<Rightarrow> (pyval \<rightharpoonup> int)" where
  "to_dict d = map_of (rev (map (\<lambda>(i, k). (k, i)) d))"

text \<open>Lines 54-66: no \<open>dropna\<close> here.\<close>

definition dim_comm_type :: "frame \<Rightarrow> (int \<times> pyval) list" where
  "dim_comm_type raw_df =
     (case map_of raw_df ''event_type'' of
        Some vs \<Rightarrow> surrogate_keys (drop_duplicates vs)
      | None \<Rightarrow> [(1, PStr ''Meeting''), (2, PStr ''Call'')])"

definition comm_type_mapping :: "frame \<Rightarrow> (pyval \<rightharpoonup> int)" where
  "comm_type_mapping raw_df = to_dict (dim_comm_type raw_df)"

text \<open>Lines 73-85: no \<open>dropna\<close> here either.\<close>

definition dim_subject :: "frame \<Rightarrow> (int \<times> pyval) list" where
  "dim_subject raw_df =
     (case map_of raw_df ''event_title'' of
        Some vs \<Rightarrow> surrogate_keys (drop_duplicates vs)
      | None \<Rightarrow> [(1, PStr ''Project Review''), (2, PStr ''Team Sync'')])"

definition subject_mapping :: "frame \<Rightarrow> (pyval \<rightharpoonup> int)" where
  "subject_mapping raw_df = to_dict (dim_subject raw_df)"

text \<open>Lines 247-258.\<close>

definition dim_audio :: "frame \<Rightarrow> (int \<times> pyval) list" where
  "dim_audio raw_df =
     (case map_of raw_df ''audio_url'' of
        Some vs \<Rightarrow> surrogate_keys (drop_duplicates (dropna vs))
      | None \<Rightarrow> [(1, PStr ''http://dummy.com/audio1.mp3''),
                 (2, PStr ''http://dummy.com/audio2.mp3'')])"

definition audio_mapping :: "frame \<Rightarrow> (pyval \<rightharpoonup> int)" where
  "audio_mapping raw_df = to_dict (dim_audio raw_df)"

text \<open>Lines 265-276.\<close>

definition dim_video :: "frame \<Rightarrow> (int \<times> pyval) list" where
  "dim_video raw_df =
     (case map_of raw_df ''video_url'' of
        Some vs \<Rightarrow> surrogate_keys (drop_duplicates (dropna vs))
      | None \<Rightarrow> [(1, PStr ''http://dummy.com/video1.mp4''),
                 (2, PStr ''http://dummy.com/video2.mp4'')])"

definition video_mapping :: "frame \<Rightarrow> (pyval \<rightharpoonup> int)" where
  "video_mapping raw_df = to_dict (dim_video raw_df)"

text \<open>Lines 283-294.\<close>

definition dim_transcript :: "frame \<Rightarrow> (int \<times> pyval) list" where
  "dim_transcript raw_df =
     (case map_of raw_df ''transcript_url'' of
        Some vs \<Rightarrow> surrogate_keys (drop_duplicates (dropna vs))
      | None \<Rightarrow> [(1, PStr ''http://dummy.com/trans1.txt''),
                 (2, PStr ''http://dummy.com/trans2.txt'')])"

definition transcript_mapping :: "frame \<Rightarrow> (pyval \<rightharpoonup> int)" where
  "transcript_mapping raw_df = to_dict (dim_transcript raw_df)"

text \<open>
  Lines 213-240. \<open>dt.normalize()\<close> sets the time of day to midnight; the row holds the
  date, from which the source derives year, month, day and names (not needed for the
  keys). The fallback dates are 2023-01-01 and 2023-01-02. \<open>strftime\<close> is
  \<open>dt.strftime('%Y-%m-%d')\<close> on the nanoseconds of a timestamp; the mapping is keyed
  by that text.
\<close>

definition day_ns :: int where
  "day_ns = 86400000000000"

definition normalize :: "pyval \<Rightarrow> pyval" where
  "normalize v = (case v of PTimestamp ns \<Rightarrow> PTimestamp (ns - ns mod day_ns) | _ \<Rightarrow> PNaN)"

definition date_key :: "(int \<Rightarrow> string) \<Rightarrow> pyval \<Rightarrow> pyval" where
  "date_key strftime v = (case v of PTimestamp ns \<Rightarrow> PStr (strftime ns) | _ \<Rightarrow> PNaN)"

definition dim_calendar :: "frame \<Rightarrow> (int \<times> pyval) list" where
  "dim_calendar raw_df =
     (case map_of raw_df ''start_time'' of
        Some vs \<Rightarrow> surrogate_keys (drop_duplicates (dropna (map normalize vs)))
      | None \<Rightarrow> [(1, PTimestamp 1672531200000000000), (2, PTimestamp 1672617600000000000)])"

definition calendar_mapping :: "(int \<Rightarrow> string) \<Rightarrow> frame \<Rightarrow> (pyval \<rightharpoonup> int)" where
  "calendar_mapping strftime raw_df =
     to_dict (map (\<lambda>(i, d). (i, date_key strftime d)) (dim_calendar raw_df))"

section \<open>Fact assembler (lines 302-361)\<close>

definition bind_err :: "'e + 'a \<Rightarrow> ('a \<Rightarrow> 'e + 'b) \<Rightarrow> 'e + 'b" where
  "bind_err r f = (case r of Inl e \<Rightarrow> Inl e | Inr x \<Rightarrow> f x)"

definition columns_named :: "string \<Rightarrow> frame \<Rightarrow> frame" where
  "columns_named c df = filter (\<lambda>(k, vs). k = c) df"

text \<open>\<open>df[[labels]]\<close>: \<open>KeyError\<close> when a label is not a column.\<close>

definition getitem_list :: "frame \<Rightarrow> string list \<Rightarrow> py_error + frame" where
  "getitem_list df labels =
     (if list_all (\<lambda>c. c \<in> set (map fst df)) labels
      then Inr (concat (map (\<lambda>c. columns_named c df) labels))
      else Inl KeyError)"

text \<open>\<open>df[label]\<close>: a series, or a frame when several columns share the label.\<close>

datatype selection = Series "pyval list" | SubFrame frame

definition getitem :: "frame \<Rightarrow> string \<Rightarrow> py_error + selection" where
  "getitem df c =
     (case columns_named c df of
        [] \<Rightarrow> Inl KeyError
      | [(k, vs)] \<Rightarrow> Inr (Series vs)
      | cols \<Rightarrow> Inr (SubFrame cols))"

text \<open>\<open>df[label] = values\<close>: the column is replaced, or appended when new.\<close>

definition setitem :: "frame \<Rightarrow> string \<Rightarrow> pyval list \<Rightarrow> frame" where
  "setitem df c vs =
     (if c \<in> set (map fst df)
      then map (\<lambda>(k, old). if k = c then (k, vs) else (k, old)) df
      else df @ [(c, vs)])"

text \<open>Lines 302-316: the thirteen columns the fact table is cut from.\<close>

definition fact_source_cols :: "string list" where
  "fact_source_cols =
     [''comm_id'', ''source_id'', ''event_type'', ''event_title'', ''start_time'',
      ''audio_url'', ''video_url'', ''transcript_url'', ''created_at'', ''updated_at'',
      ''is_processed'', ''raw_title'', ''duration_seconds'']"

text \<open>Lines 319-324.\<close>

definition fact_rename :: "string \<Rightarrow> string" where
  "fact_rename c =
     (if c = ''event_title'' then ''raw_title''
      else if c = ''duration_seconds'' then ''raw_duration''
      else if c = ''created_at'' then ''ingested_at''
      else if c = ''updated_at'' then ''processed_at''
      else c)"

definition rename_columns :: "(string \<Rightarrow> string) \<Rightarrow> frame \<Rightarrow> frame" where
  "rename_columns f df = map (\<lambda>(c, vs). (f c, vs)) df"

text \<open>
  \<open>series.map(mapping).fillna(0).astype(int)\<close>: the key of the cell's value, 0 when
  the mapping has none.
\<close>

definition map_fk :: "(pyval \<rightharpoonup> int) \<Rightarrow> pyval list \<Rightarrow> int list" where
  "map_fk m vs = map (\<lambda>v. case m v of Some i \<Rightarrow> i | None \<Rightarrow> 0) vs"

text \<open>
  The same on what \<open>df[label]\<close> gave. A frame has no \<open>map\<close> that takes a dict
  (\<open>TypeError\<close> from pandas 2.1 on, \<open>AttributeError\<close> before; on a frame without
  rows \<open>map\<close> returns it and the assignment of the two columns to one label raises
  \<open>ValueError\<close> instead). The model names the error of the usual case.
\<close>

definition lookup_column :: "(pyval \<rightharpoonup> int) \<Rightarrow> selection \<Rightarrow> py_error + int list" where
  "lookup_column m sel =
     (case sel of Series vs \<Rightarrow> Inr (map_fk m vs) | SubFrame cols \<Rightarrow> Inl TypeError)"

text \<open>One statement of lines 328, 329, 333-335.\<close>

definition set_fk :: "string \<Rightarrow> string \<Rightarrow> (pyval \<rightharpoonup> int) \<Rightarrow> frame \<Rightarrow> py_error + frame" where
  "set_fk target source m f =
     bind_err (getitem f source) (\<lambda>sel.
     bind_err (lookup_column m sel) (\<lambda>ks.
     Inr (setitem f target (map PInt ks))))"

text \<open>Line 330: the date text of the start time (missing for NaT), then the lookup.\<close>

definition set_calendar_id :: "(int \<Rightarrow> string) \<Rightarrow> (pyval \<rightharpoonup> int) \<Rightarrow> frame \<Rightarrow> py_error + frame" where
  "set_calendar_id strftime m f =
     bind_err (getitem f ''start_time'') (\<lambda>sel.
       case sel of
         Series vs \<Rightarrow> Inr (setitem f ''calendar_id'' (map PInt (map_fk m (map (date_key strftime) vs))))
       | SubFrame cols \<Rightarrow> Inl AttributeError)"

text \<open>
  Line 341: \<open>astype(np.int64) // 10**9\<close> on the datetime column. The int64 of a
  timestamp is its nanoseconds; the int64 of NaT is the smallest one, \<open>-2**63\<close>
  (pandas versions that refuse the cast of NaT raise instead). \<open>//\<close> rounds down, as
  \<open>div\<close> does.
\<close>

definition iNaT :: int where
  "iNaT = - (2 ^ 63)"

definition epoch_seconds :: "pyval \<Rightarrow> int" where
  "epoch_seconds v = (case v of PTimestamp ns \<Rightarrow> ns | _ \<Rightarrow> iNaT) div 10 ^ 9"

definition datetime_id :: "pyval list \<Rightarrow> int list" where
  "datetime_id start_time = map epoch_seconds start_time"

text \<open>Lines 340-343.\<close>

definition set_datetime_id :: "frame \<Rightarrow> frame \<Rightarrow> py_error + frame" where
  "set_datetime_id raw_df f =
     (if ''start_time'' \<in> set (map fst raw_df) then
        bind_err (getitem raw_df ''start_time'') (\<lambda>sel.
          case sel of
            Series vs \<Rightarrow> Inr (setitem f ''datetime_id'' (map PInt (datetime_id vs)))
          | SubFrame cols \<Rightarrow> Inl TypeError)
      else Inr (setitem f ''datetime_id'' (replicate (n_rows f) (PInt 0))))"

text \<open>
  Lines 346-349: \<open>astype(int)\<close> of a flag. A boolean or an integer is cast and a missing
  flag cannot be. Two cases of the cast are left out of the model: text that reads as an
  integer (which pandas casts) is taken as not castable, and an unsigned 64-bit value
  (which wraps) is kept as it is.
\<close>

fun flag_int :: "pyval \<Rightarrow> py_error + pyval list" where
  "flag_int (PBool b) = Inr [PInt (if b then 1 else 0)]"
| "flag_int (PInt n) = Inr [PInt n]"
| "flag_int v = Inl ValueError"

definition set_is_processed :: "frame \<Rightarrow> frame \<Rightarrow> py_error + frame" where
  "set_is_processed raw_df f =
     (if ''is_processed'' \<in> set (map fst raw_df) then
        bind_err (getitem raw_df ''is_processed'') (\<lambda>sel.
          case sel of
            Series vs \<Rightarrow> bind_err (collect (map flag_int vs)) (\<lambda>ns. Inr (setitem f ''is_processed'' ns))
          | SubFrame cols \<Rightarrow> Inl TypeError)
      else Inr (setitem f ''is_processed'' (replicate (n_rows f) (PInt 0))))"

text \<open>Line 352 and lines 355-361.\<close>

definition dropped_cols :: "string list" where
  "dropped_cols = [''event_type'', ''audio_url'', ''video_url'', ''transcript_url'', ''start_time'']"

definition fact_comm_columns_order :: "string list" where
  "fact_comm_columns_order =
     [''comm_id'', ''source_id'', ''comm_type_id'', ''subject_id'', ''calendar_id'',
      ''audio_id'', ''video_id'', ''transcript_id'', ''datetime_id'',
      ''ingested_at'', ''processed_at'', ''is_processed'', ''raw_title'', ''raw_duration'']"

definition finish_fact :: "frame \<Rightarrow> py_error + frame" where
  "finish_fact f =
     getitem_list (filter (\<lambda>(k, vs). k \<notin> set dropped_cols) f)
       (filter (\<lambda>c. c \<in> set (map fst (filter (\<lambda>(k, vs). k \<notin> set dropped_cols) f)))
          fact_comm_columns_order)"

text \<open>
  The fact table after lines 302-324.
\<close>

definition fact_selected :: "frame \<Rightarrow> py_error + frame" where
  "fact_selected raw_df =
     bind_err (getitem_list raw_df fact_source_cols) (\<lambda>f. Inr (rename_columns fact_rename f))"

text \<open>
  The statements of lines 328-335, each with its target, the column it reads and the
  mapping of its dimension, built from the same \<open>raw_df\<close>.
\<close>

definition comm_type_id_stmt :: "frame \<Rightarrow> frame \<Rightarrow> py_error + frame" where
  "comm_type_id_stmt raw_df f = set_fk ''comm_type_id'' ''event_type'' (comm_type_mapping raw_df) f"

definition subject_id_stmt :: "frame \<Rightarrow> frame \<Rightarrow> py_error + frame" where
  "subject_id_stmt raw_df f = set_fk ''subject_id'' ''raw_title'' (subject_mapping raw_df) f"

definition calendar_id_stmt :: "(int \<Rightarrow> string) \<Rightarrow> frame \<Rightarrow> frame \<Rightarrow> py_error + frame" where
  "calendar_id_stmt strftime raw_df f = set_calendar_id strftime (calendar_mapping strftime raw_df) f"

definition audio_id_stmt :: "frame \<Rightarrow> frame \<Rightarrow> py_error + frame" where
  "audio_id_stmt raw_df f = set_fk ''audio_id'' ''audio_url'' (audio_mapping raw_df) f"

definition video_id_stmt :: "frame \<Rightarrow> frame \<Rightarrow> py_error + frame" where
  "video_id_stmt raw_df f = set_fk ''video_id'' ''video_url'' (video_mapping raw_df) f"

definition transcript_id_stmt :: "frame \<Rightarrow> frame \<Rightarrow> py_error + frame" where
  "transcript_id_stmt raw_df f =
     set_fk ''transcript_id'' ''transcript_url'' (transcript_mapping raw_df) f"

text \<open>Lines 302-361, statement after statement.\<close>

definition fact_communication :: "(int \<Rightarrow> string) \<Rightarrow> frame \<Rightarrow> py_error + frame" where
  "fact_communication strftime raw_df =
     bind_err (fact_selected raw_df) (\<lambda>f0.
     bind_err (comm_type_id_stmt raw_df f0) (\<lambda>f1.
     bind_err (subject_id_stmt raw_df f1) (\<lambda>f2.
     bind_err (calendar_id_stmt strftime raw_df f2) (\<lambda>f3.
     bind_err (audio_id_stmt raw_df f3) (\<lambda>f4.
     bind_err (video_id_stmt raw_df f4) (\<lambda>f5.
     bind_err (transcript_id_stmt raw_df f5) (\<lambda>f6.
     bind_err (set_datetime_id raw_df f6) (\<lambda>f7.
     bind_err (set_is_processed raw_df f7) finish_fact))))))))"

section \<open>Properties stated about the tables, and an example frame\<close>

text \<open>The position of the first occurrence of a value in a column.\<close>

definition first_pos :: "'a \<Rightarrow> 'a list \<Rightarrow> nat" where
  "first_pos x xs = length (takeWhile (\<lambda>y. y \<noteq> x) xs)"

text \<open>
  What it is for \<open>d\<close> with mapping \<open>m\<close> to be the dimension of the values \<open>vs\<close>:
  no natural value twice, exactly the values of \<open>vs\<close>, in the order of their first
  occurrence, the surrogate keys 1, 2, ... in row order, and the mapping sending the
  natural value of every row to the key of that row.
\<close>

definition first_seen_dimension :: "pyval list \<Rightarrow> (int \<times> pyval) list \<Rightarrow> (pyval \<rightharpoonup> int) \<Rightarrow> bool" where
  "first_seen_dimension vs d m \<longleftrightarrow>
     distinct (map snd d) \<and> set (map snd d) = set vs \<and>
     sorted_wrt (\<lambda>a b. first_pos a vs < first_pos b vs) (map snd d) \<and>
     map fst d = map int [1..<Suc (length d)] \<and>
     list_all (\<lambda>(i, k). m k = Some i) d"

text \<open>
  Three events with the thirteen columns of the fact table; the third repeats the
  identifier of the first, the second misses its type, start time and audio.
\<close>

definition example_events :: frame where
  "example_events =
     [(''comm_id'', [PInt 1, PInt 2, PInt 1]),
      (''source_id'', [PInt 7, PInt 7, PInt 7]),
      (''event_type'', [PStr ''Meeting'', PNaN, PStr ''Meeting'']),
      (''event_title'', [PStr ''Sync'', PStr ''Review'', PStr ''Sync'']),
      (''start_time'', [PTimestamp 1700000000000000000, PNaN, PTimestamp 1700000000000000000]),
      (''audio_url'', [PStr ''a.mp3'', PNaN, PStr ''a.mp3'']),
      (''video_url'', [PNaN, PStr ''v.mp4'', PNaN]),
      (''transcript_url'', [PStr ''t.txt'', PStr ''u.txt'', PStr ''t.txt'']),
      (''created_at'', [PNaN, PNaN, PNaN]),
      (''updated_at'', [PNaN, PNaN, PNaN]),
      (''is_processed'', [PBool True, PBool False, PBool True]),
      (''raw_title'', [PStr ''Sync'', PStr ''Review'', PStr ''Sync'']),
      (''duration_seconds'', [PInt 60, PInt 30, PInt 60])]"

text \<open>The date text of a timestamp, on the day of the example (2023-11-14) and elsewhere.\<close>

definition example_strftime :: "int \<Rightarrow> string" where
  "example_strftime ns = (if ns div day_ns = 19675 then ''2023-11-14'' else ''another day'')"

text \<open>
  One event whose organizer is also its attendee: \<open>organizer_email\<close> a@x.com and an
  attendees cell holding the text \<open>s\<close>.
\<close>

definition organizer_and_attendee :: "string \<Rightarrow> frame" where
  "organizer_and_attendee s =
     [(''comm_id'', [PInt 1]),
      (''organizer_email'', [PStr ''a@x.com'']),
      (''attendees'', [PStr s])]"

text \<open>
  The two JSON documents of that event, the person \<open>organizer_info\<close> builds for it, and
  \<open>json.dumps\<close> and \<open>json.loads\<close> as far as these documents go.
\<close>

definition organizer_json :: string where
  "organizer_json = ''[{\"email\": \"a@x.com\", \"name\": \"a@x.com\", \"location\": null, \"displayName\": null, \"phoneNumber\": null}]''"

definition attendees_json :: string where
  "attendees_json = ''[{\"email\": \"a@x.com\", \"name\": \"A\"}]''"

definition example_organizer :: pyval where
  "example_organizer =
     PDict [(''email'', PStr ''a@x.com''), (''name'', PStr ''a@x.com''),
            (''location'', PNone), (''displayName'', PNone), (''phoneNumber'', PNone)]"

definition example_dumps :: "pyval \<Rightarrow> string" where
  "example_dumps v = (if v = PList [example_organizer] then organizer_json else ''null'')"

definition example_loads :: "string \<Rightarrow> pyval option" where
  "example_loads s =
     (if s = organizer_json then Some (PList [example_organizer])
      else if s = attendees_json
      then Some (PList [PDict [(''email'', PStr ''a@x.com''), (''name'', PStr ''A'')]])
      else None)"

text \<open>The example frame without its \<open>audio_url\<close> column.\<close>

definition without_audio :: frame where
  "without_audio = filter (\<lambda>(k, vs). k \<noteq> ''audio_url'') example_events"

text \<open>The key a role relation is grouped by.\<close>

definition relation_key :: "'c relation \<Rightarrow> 'c \<times> int" where
  "relation_key r = (comm_id r, user_id r)"


text \<open>The example after lines 32-35: the repeated third row is gone.\<close>

definition example_deduped :: frame where
  "example_deduped = map (\<lambda>(c, vs). (c, take 2 vs)) example_events"

section \<open>Deduplication keeps first occurrences\<close>

lemma keep_rows_Cons: "keep_rows (b # bs) (v # vs) = (if b then v # keep_rows bs vs else keep_rows bs vs)"
  by (simp add: keep_rows_def)

lemma keep_rows_Nil: "keep_rows [] vs = []" "keep_rows bs [] = []"
  by (simp_all add: keep_rows_def)

lemma set_keep_first_seen: "set (keep_rows (first_seen seen xs) xs) = set xs - set seen"
  by (induction xs arbitrary: seen) (auto simp: keep_rows_Cons keep_rows_Nil)

lemma distinct_keep_first_seen: "distinct (keep_rows (first_seen seen xs) xs)"
  by (induction xs arbitrary: seen) (auto simp: keep_rows_Cons keep_rows_Nil set_keep_first_seen)

lemma first_seen_nth:
  "i < length xs \<Longrightarrow> first_seen seen xs ! i \<longleftrightarrow> xs ! i \<notin> set seen \<union> set (take i xs)"
proof (induction xs arbitrary: seen i)
  case Nil then show ?case by simp
next
  case (Cons x xs)
  show ?case
  proof (cases i)
    case 0 then show ?thesis by simp
  next
    case (Suc j)
    with Cons.prems have "j < length xs" by simp
    from Cons.IH[OF this, of "x # seen"] Suc show ?thesis by auto
  qed
qed

lemma first_pos_Cons: "first_pos a (x # xs) = (if a = x then 0 else Suc (first_pos a xs))"
  by (auto simp: first_pos_def)

lemma sorted_keep_first_seen:
  "sorted_wrt (\<lambda>a b. first_pos a xs < first_pos b xs) (keep_rows (first_seen seen xs) xs)"
proof (induction xs arbitrary: seen)
  case Nil then show ?case by (simp add: keep_rows_Nil)
next
  case (Cons x xs)
  let ?t = "keep_rows (first_seen (x # seen) xs) xs"
  have nx: "\<forall>a \<in> set ?t. a \<noteq> x" by (simp add: set_keep_first_seen)
  have "sorted_wrt (\<lambda>a b. first_pos a xs < first_pos b xs) ?t" by (rule Cons.IH)
  then have t: "sorted_wrt (\<lambda>a b. first_pos a (x # xs) < first_pos b (x # xs)) ?t"
    using nx by (auto elim!: sorted_wrt_mono_rel[rotated] simp: first_pos_Cons)
  have h: "\<forall>a \<in> set ?t. first_pos x (x # xs) < first_pos a (x # xs)"
    using nx by (auto simp: first_pos_Cons)
  show ?case using t h by (simp add: keep_rows_Cons)
qed

lemma drop_duplicates_distinct: "distinct (drop_duplicates xs)"
  by (simp add: drop_duplicates_def distinct_keep_first_seen)

lemma drop_duplicates_set: "set (drop_duplicates xs) = set xs"
  by (simp add: drop_duplicates_def set_keep_first_seen)

lemma drop_duplicates_order:
  "sorted_wrt (\<lambda>a b. first_pos a xs < first_pos b xs) (drop_duplicates xs)"
  by (simp add: drop_duplicates_def sorted_keep_first_seen)

lemma first_seen_distinct:
  "distinct xs \<Longrightarrow> set xs \<inter> set seen = {} \<Longrightarrow> first_seen seen xs = replicate (length xs) True"
  by (induction xs arbitrary: seen) auto

lemma keep_rows_all: "length vs = n \<Longrightarrow> keep_rows (replicate n True) vs = vs"
proof (induction vs arbitrary: n)
  case Nil then show ?case by (simp add: keep_rows_Nil)
next
  case (Cons v vs)
  then obtain m where "n = Suc m" "length vs = m" by (cases n) auto
  with Cons.IH show ?case by (simp add: keep_rows_Cons)
qed

lemma columns_named_unique:
  "distinct (map fst df) \<Longrightarrow> map_of df c = Some vs \<Longrightarrow> columns_named c df = [(c, vs)]"
proof (induction df)
  case Nil then show ?case by simp
next
  case (Cons p df)
  obtain k v where p: "p = (k, v)" by (cases p)
  show ?case
  proof (cases "k = c")
    case True
    with Cons.prems p have "v = vs" by simp
    moreover have "filter (\<lambda>(k', vs'). k' = c) df = []"
      using Cons.prems True p by (force simp: filter_empty_conv)
    ultimately show ?thesis using True p by (simp add: columns_named_def)
  next
    case False
    with Cons p show ?thesis by (simp add: columns_named_def)
  qed
qed


lemma columns_named_rename:
  "columns_named t (rename_columns g (columns_named c df))
     = (if g c = t then rename_columns g (columns_named c df) else [])"
  by (induction df) (auto simp: columns_named_def rename_columns_def)

lemma columns_named_append: "columns_named t (a @ b) = columns_named t a @ columns_named t b"
  by (simp add: columns_named_def)

lemma rename_columns_append: "rename_columns g (a @ b) = rename_columns g a @ rename_columns g b"
  by (simp add: rename_columns_def)

lemma rename_columns_Nil: "rename_columns g [] = []"
  by (simp add: rename_columns_def)

lemma map_of_dedupe:
  "map_of (map (\<lambda>(c, vs). (c, h vs)) df) c = map_option h (map_of df c)"
  by (induction df) auto

lemma columns_named_rename_concat:
  "columns_named t (rename_columns g (concat (map (\<lambda>c. columns_named c df) ls)))
     = concat (map (\<lambda>c. if g c = t then rename_columns g (columns_named c df) else []) ls)"
  by (induction ls)
     (simp_all add: rename_columns_Nil rename_columns_append columns_named_append
        columns_named_rename, simp add: columns_named_def)

lemma fact_selected_eq:
  "fact_selected df = Inr f \<Longrightarrow>
     f = rename_columns fact_rename (concat (map (\<lambda>c. columns_named c df) fact_source_cols))"
  by (auto simp: fact_selected_def bind_err_def getitem_list_def split: if_splits)

lemma fact_selected_comm_id:
  assumes "distinct (map fst df)" "map_of df ''comm_id'' = Some ids" "fact_selected df = Inr f"
  shows "getitem f ''comm_id'' = Inr (Series ids)"
proof -
  have "columns_named ''comm_id'' f
          = rename_columns fact_rename (columns_named ''comm_id'' df)"
    unfolding fact_selected_eq[OF assms(3)] columns_named_rename_concat
    by (simp add: fact_source_cols_def fact_rename_def)
  also have "\<dots> = [(''comm_id'', ids)]"
    by (simp add: columns_named_unique[OF assms(1,2)] rename_columns_def fact_rename_def)
  finally show ?thesis by (simp add: getitem_def)
qed

text \<open>
  Lines 32-35 by themselves. When \<open>comm_id\<close> repeats they do not fail: every column
  keeps the rows at which an identifier occurs for the first time (row \<open>i\<close> is kept
  exactly when its identifier is not among the earlier ones), so the identifiers left
  are distinct and are the set of the input's identifiers; and whenever the cut of lines
  302-324 succeeds on that frame, its \<open>comm_id\<close> column is this deduplicated column.
  The frame is one read from CSV: distinct labels, one cell per row in every column.
\<close>

theorem comm_id_first_occurrence_kept:
  assumes "map_of raw_df ''comm_id'' = Some ids"
    and "distinct (map fst raw_df)"
    and "list_all (\<lambda>(c, vs). length vs = length ids) raw_df"
  shows "\<exists>df. dedupe_comm_id raw_df = Inr df
          \<and> df = map (\<lambda>(c, vs). (c, keep_rows (first_seen [] ids) vs)) raw_df
          \<and> (\<forall>i < length ids. first_seen [] ids ! i \<longleftrightarrow> ids ! i \<notin> set (take i ids))
          \<and> map_of df ''comm_id'' = Some (drop_duplicates ids)
          \<and> distinct (drop_duplicates ids)
          \<and> set (drop_duplicates ids) = set ids
          \<and> (\<forall>f. fact_selected df = Inr f \<longrightarrow>
                 getitem f ''comm_id'' = Inr (Series (drop_duplicates ids)))"
proof -
  let ?df = "map (\<lambda>(c, vs). (c, keep_rows (first_seen [] ids) vs)) raw_df"
  have same: "distinct ids \<Longrightarrow> ?df = raw_df"
  proof -
    assume d: "distinct ids"
    have "\<And>c vs. (c, vs) \<in> set raw_df \<Longrightarrow> keep_rows (first_seen [] ids) vs = vs"
      using assms(3) d by (auto simp: list_all_iff first_seen_distinct keep_rows_all)
    then show ?thesis by (induction raw_df) auto
  qed
  have run: "dedupe_comm_id raw_df = Inr ?df"
    using assms(1) same by (simp add: dedupe_comm_id_def)
  have col: "map_of ?df ''comm_id'' = Some (drop_duplicates ids)"
    using assms(1) by (simp add: map_of_dedupe drop_duplicates_def)
  have names: "map fst ?df = map fst raw_df" by (induction raw_df) auto
  have "distinct (map fst ?df)" using assms(2) names by metis
  then have sel: "\<forall>f. fact_selected ?df = Inr f \<longrightarrow>
                 getitem f ''comm_id'' = Inr (Series (drop_duplicates ids))"
    using fact_selected_comm_id[OF _ col] by blast
  have first: "\<forall>i < length ids. first_seen [] ids ! i \<longleftrightarrow> ids ! i \<notin> set (take i ids)"
    by (simp add: first_seen_nth)
  show ?thesis
    using run col sel first drop_duplicates_distinct[of ids] drop_duplicates_set[of ids]
    by (intro exI[of _ ?df]) blast
qed

section \<open>Simple dimensions\<close>

lemma surrogate_keys_snd: "map snd (surrogate_keys ks) = ks"
  by (simp add: surrogate_keys_def del: upt_Suc)

lemma surrogate_keys_fst: "map fst (surrogate_keys ks) = map int [1..<Suc (length ks)]"
  by (simp add: surrogate_keys_def del: upt_Suc)

lemma surrogate_keys_length: "length (surrogate_keys ks) = length ks"
  by (simp add: surrogate_keys_def del: upt_Suc)



lemma to_dict_Some: "distinct (map snd d) \<Longrightarrow> (i, k) \<in> set d \<Longrightarrow> to_dict d k = Some i"
proof -
  assume d: "distinct (map snd d)" and m: "(i, k) \<in> set d"
  have "map fst (rev (map (\<lambda>(i, k). (k, i)) d)) = rev (map snd d)"
    by (induction d) auto
  then have "distinct (map fst (rev (map (\<lambda>(i, k). (k, i)) d)))" using d by simp
  moreover have "(k, i) \<in> set (rev (map (\<lambda>(i, k). (k, i)) d))" using m by force
  ultimately show ?thesis unfolding to_dict_def by simp
qed

lemma first_seen_dimension_built:
  "first_seen_dimension vs (surrogate_keys (drop_duplicates vs))
     (to_dict (surrogate_keys (drop_duplicates vs)))"
proof -
  let ?d = "surrogate_keys (drop_duplicates vs)"
  have dist: "distinct (map snd ?d)"
    by (simp add: surrogate_keys_snd drop_duplicates_distinct)
  have "list_all (\<lambda>(i, k). to_dict ?d k = Some i) ?d"
    unfolding list_all_iff using to_dict_Some[OF dist] by blast
  then show ?thesis
    unfolding first_seen_dimension_def
    by (simp add: surrogate_keys_snd surrogate_keys_fst surrogate_keys_length
        drop_duplicates_distinct drop_duplicates_set drop_duplicates_order del: upt_Suc)
qed

lemma set_dropna: "set (dropna vs) = {v \<in> set vs. \<not> isna v}"
  by (auto simp: dropna_def)

text \<open>
  Claim C5, as amended. For a present source column, \<open>dim_audio\<close>, \<open>dim_video\<close> and
  \<open>dim_transcript\<close> hold exactly the values that are not missing, \<open>dim_comm_type\<close>
  and \<open>dim_subject\<close> hold every value of the column (a missing one included, as one
  row); in all five the values are deduplicated, in first-seen order, keyed 1, 2, ...
  in that order, and the mapping sends each natural value to its key.
\<close>

theorem simple_dimensions_first_seen:
  "(map_of raw_df ''event_type'' = Some ct \<longrightarrow>
      first_seen_dimension ct (dim_comm_type raw_df) (comm_type_mapping raw_df))
   \<and> (map_of raw_df ''event_title'' = Some st \<longrightarrow>
      first_seen_dimension st (dim_subject raw_df) (subject_mapping raw_df))
   \<and> (map_of raw_df ''audio_url'' = Some au \<longrightarrow>
      first_seen_dimension (dropna au) (dim_audio raw_df) (audio_mapping raw_df)
      \<and> snd ` set (dim_audio raw_df) = {v \<in> set au. \<not> isna v})
   \<and> (map_of raw_df ''video_url'' = Some vi \<longrightarrow>
      first_seen_dimension (dropna vi) (dim_video raw_df) (video_mapping raw_df)
      \<and> snd ` set (dim_video raw_df) = {v \<in> set vi. \<not> isna v})
   \<and> (map_of raw_df ''transcript_url'' = Some tr \<longrightarrow>
      first_seen_dimension (dropna tr) (dim_transcript raw_df) (transcript_mapping raw_df)
      \<and> snd ` set (dim_transcript raw_df) = {v \<in> set tr. \<not> isna v})"
proof -
  have snd_set: "\<And>vs. snd ` set (surrogate_keys (drop_duplicates (dropna vs))) = {v \<in> set vs. \<not> isna v}"
  proof -
    fix vs
    have "snd ` set (surrogate_keys (drop_duplicates (dropna vs)))
            = set (map snd (surrogate_keys (drop_duplicates (dropna vs))))" by simp
    also have "\<dots> = {v \<in> set vs. \<not> isna v}"
      unfolding surrogate_keys_snd by (simp add: drop_duplicates_set set_dropna)
    finally show "snd ` set (surrogate_keys (drop_duplicates (dropna vs))) = {v \<in> set vs. \<not> isna v}" .
  qed
  show ?thesis
    by (simp add: dim_comm_type_def comm_type_mapping_def dim_subject_def subject_mapping_def
        dim_audio_def audio_mapping_def dim_video_def video_mapping_def
        dim_transcript_def transcript_mapping_def first_seen_dimension_built snd_set)
qed

text \<open>On the example the third row goes and two identifiers stay.\<close>

theorem comm_id_first_occurrence_kept_witness:
  "map_of example_events ''comm_id'' = Some [PInt 1, PInt 2, PInt 1]
   \<and> distinct (map fst example_events)
   \<and> (\<exists>df. dedupe_comm_id example_events = Inr df
         \<and> map_of df ''comm_id'' = Some [PInt 1, PInt 2]
         \<and> map_of df ''event_title'' = Some [PStr ''Sync'', PStr ''Review'']
         \<and> (\<exists>f. fact_selected df = Inr f)
         \<and> (\<forall>f. fact_selected df = Inr f \<longrightarrow> getitem f ''comm_id'' = Inr (Series [PInt 1, PInt 2])))"
  using comm_id_first_occurrence_kept [of example_events "[PInt 1, PInt 2, PInt 1]"]
  by (simp add: example_events_def drop_duplicates_def keep_rows_def fact_selected_def
      bind_err_def getitem_list_def fact_source_cols_def)

text \<open>Claim C5, as amended, on the example.\<close>

theorem simple_dimensions_first_seen_witness:
  "map_of example_events ''event_type'' = Some [PStr ''Meeting'', PNaN, PStr ''Meeting'']
   \<and> first_seen_dimension [PStr ''Meeting'', PNaN, PStr ''Meeting'']
        [(1, PStr ''Meeting''), (2, PNaN)] (comm_type_mapping example_events)
   \<and> dim_comm_type example_events = [(1, PStr ''Meeting''), (2, PNaN)]
   \<and> map_of example_events ''event_title'' = Some [PStr ''Sync'', PStr ''Review'', PStr ''Sync'']
   \<and> dim_subject example_events = [(1, PStr ''Sync''), (2, PStr ''Review'')]
   \<and> map_of example_events ''audio_url'' = Some [PStr ''a.mp3'', PNaN, PStr ''a.mp3'']
   \<and> dim_audio example_events = [(1, PStr ''a.mp3'')]
   \<and> first_seen_dimension [PStr ''a.mp3'', PStr ''a.mp3'']
        [(1, PStr ''a.mp3'')] (audio_mapping example_events)
   \<and> map_of example_events ''video_url'' = Some [PNaN, PStr ''v.mp4'', PNaN]
   \<and> dim_video example_events = [(1, PStr ''v.mp4'')]
   \<and> map_of example_events ''transcript_url'' = Some [PStr ''t.txt'', PStr ''u.txt'', PStr ''t.txt'']
   \<and> dim_transcript example_events = [(1, PStr ''t.txt''), (2, PStr ''u.txt'')]
   \<and> transcript_mapping example_events (PStr ''u.txt'') = Some 2"
  using simple_dimensions_first_seen [of example_events
      "[PStr ''Meeting'', PNaN, PStr ''Meeting'']" "[PStr ''Sync'', PStr ''Review'', PStr ''Sync'']"
      "[PStr ''a.mp3'', PNaN, PStr ''a.mp3'']" "[PNaN, PStr ''v.mp4'', PNaN]"
      "[PStr ''t.txt'', PStr ''u.txt'', PStr ''t.txt'']"]
  by (simp add: example_events_def dim_comm_type_def dim_subject_def dim_audio_def dim_video_def
      dim_transcript_def transcript_mapping_def to_dict_def surrogate_keys_def
      drop_duplicates_def keep_rows_def dropna_def)

text \<open>
  Claim C5 as stated fails: lines 55 and 74 have no \<open>dropna\<close>, so a missing event type
  or title is a row of its dimension.
\<close>

theorem missing_event_type_kept_counterexample:
  "isna PNaN
   \<and> dim_comm_type [(''event_type'', [PStr ''Meeting'', PNaN])] = [(1, PStr ''Meeting''), (2, PNaN)]
   \<and> dim_subject [(''event_title'', [PNaN, PStr ''Sync''])] = [(1, PNaN), (2, PStr ''Sync'')]"
  by (simp add: dim_comm_type_def dim_subject_def surrogate_keys_def drop_duplicates_def keep_rows_def)

section \<open>Foreign keys\<close>


















section \<open>Participant normalizer\<close>

lemma isna_truth_hashable: "hashable v \<Longrightarrow> isna_truth v = Inr (isna v)"
  by (cases v) simp_all

lemma isna_truth_cases:
  "isna_truth v = Inl ValueError \<or> isna_truth v = Inr True \<or> isna_truth v = Inr False"
  by (induction v rule: isna_truth.induct) auto

text \<open>
  Claim C1 fails on the code. A payload that is not JSON (and is neither empty nor
  \<open>[]\<close>) does become the single person whose email and name are that text, but for
  an email not yet in \<open>user_email_to_id\<close>, which is every email since nothing is ever
  stored there, line 133 raises \<open>UnboundLocalError\<close>: no user is created and the
  exception leaves \<open>process_user_data\<close>.
\<close>

theorem not_json_payload_raises:
  assumes "loads s = None" and "s \<noteq> []" and "s \<noteq> ''[]''" and "user_email_to_id (PStr s) = None"
  shows "load_users loads (PStr s) = Inr [PDict [(''email'', PStr s), (''name'', PStr s)]]
         \<and> process_user_data loads user_email_to_id c (PStr s) role_type = Inl UnboundLocalError"
  using assms
  by (simp add: process_user_data_def is_empty_payload_def load_users_def person_of_string_def
      process_users_def process_one_def as_user_dict_def email_absent_def dict_get_def)

text \<open>
  Claim C1 at its own input: the attendees value \<open>not json\<close>.
\<close>

theorem not_json_payload_raises_witness:
  "(\<lambda>s. None :: pyval option) ''not json'' = None
   \<and> process_user_data (\<lambda>s. None) Map.empty (1::int) (PStr ''not json'') ''attendees''
       = Inl UnboundLocalError"
  using not_json_payload_raises [of "\<lambda>s. None" "''not json''" Map.empty "1::int" "''attendees''"]
  by simp

text \<open>
  Claim C2 fails on the code. For a person structure with a present (hashable,
  non-empty, non-missing) email: when the email is new, no surrogate key is assigned
  and nothing is recorded, line 133 raises \<open>UnboundLocalError\<close>; only an email
  already in \<open>user_email_to_id\<close> would give a relation with its key. A person whose
  email is absent, empty or missing gives no relation and no error.
\<close>

theorem person_with_email_outcomes:
  "(hashable e \<and> truthy e \<and> \<not> isna e \<and> dict_get d ''email'' = e \<and> user_email_to_id e = None
      \<longrightarrow> process_one user_email_to_id c role_type (PDict d) = Inl UnboundLocalError)
   \<and> (hashable e \<and> truthy e \<and> \<not> isna e \<and> dict_get d ''email'' = e \<and> user_email_to_id e = Some u
      \<longrightarrow> process_one user_email_to_id c role_type (PDict d) = Inr [make_relation c u role_type])
   \<and> (\<not> truthy (dict_get d ''email'') \<or> dict_get d ''email'' = PNaN
      \<longrightarrow> process_one user_email_to_id c role_type (PDict d) = Inr [])"
  by (auto simp: process_one_def as_user_dict_def email_absent_def isna_truth_hashable)

text \<open>
  Claim C2 on the person a@x.com: new, already known, and without an email.
\<close>

theorem person_with_email_outcomes_witness:
  "process_one Map.empty (1::int) ''attendees''
       (PDict [(''email'', PStr ''a@x.com''), (''name'', PStr ''A'')]) = Inl UnboundLocalError
   \<and> process_one [PStr ''a@x.com'' \<mapsto> 1] (1::int) ''attendees''
       (PDict [(''email'', PStr ''a@x.com''), (''name'', PStr ''A'')])
       = Inr [\<lparr> comm_id = 1, user_id = 1, isAttendee = 1, isParticipant = 0, isSpeaker = 0,
                isOrganiser = 0 \<rparr>]
   \<and> process_one Map.empty (1::int) ''attendees'' (PDict [(''name'', PStr ''A'')]) = Inr []"
  using person_with_email_outcomes [of "PStr ''a@x.com''"
      "[(''email'', PStr ''a@x.com''), (''name'', PStr ''A'')]" Map.empty "1::int" "''attendees''" 1]
    person_with_email_outcomes [of "PStr ''a@x.com''"
      "[(''email'', PStr ''a@x.com''), (''name'', PStr ''A'')]" "[PStr ''a@x.com'' \<mapsto> 1]"
      "1::int" "''attendees''" 1]
    person_with_email_outcomes [of "PNone" "[(''name'', PStr ''A'')]" Map.empty "1::int"
      "''attendees''" 1]
  by (simp add: dict_get_def make_relation_def)

text \<open>
  Claim C6 fails on the code. A payload that is a native list never yields a relation:
  line 99 raises \<open>ValueError\<close> or returns early, or line 115 reads \<open>users_raw\<close>,
  which the \<open>TypeError\<close> handler did not bind for a list. A native list of one person
  raises \<open>UnboundLocalError\<close> there; a single native object is coerced to a
  one-element list and then raises at line 133 like every new email.
\<close>

theorem native_list_raises:
  "(process_user_data loads user_email_to_id c (PList us) role_type = Inl ValueError
    \<or> process_user_data loads user_email_to_id c (PList us) role_type = Inl UnboundLocalError
    \<or> process_user_data loads user_email_to_id c (PList us) role_type = Inr [])
   \<and> process_user_data loads user_email_to_id c
        (PList [PDict [(''email'', PStr ''a@x.com''), (''name'', PStr ''A'')]]) role_type
       = Inl UnboundLocalError
   \<and> process_user_data loads Map.empty c
        (PDict [(''email'', PStr ''a@x.com''), (''name'', PStr ''A'')]) role_type
       = Inl UnboundLocalError"
proof -
  have "process_user_data loads user_email_to_id c (PList us) role_type = Inl ValueError
    \<or> process_user_data loads user_email_to_id c (PList us) role_type = Inl UnboundLocalError
    \<or> process_user_data loads user_email_to_id c (PList us) role_type = Inr []"
    using isna_truth_cases[of "PList us"]
    by (auto simp: process_user_data_def is_empty_payload_def load_users_def)
  moreover have "process_user_data loads user_email_to_id c
        (PList [PDict [(''email'', PStr ''a@x.com''), (''name'', PStr ''A'')]]) role_type
       = Inl UnboundLocalError"
    by (simp add: process_user_data_def is_empty_payload_def load_users_def)
  moreover have "process_user_data loads Map.empty c
        (PDict [(''email'', PStr ''a@x.com''), (''name'', PStr ''A'')]) role_type
       = Inl UnboundLocalError"
    by (simp add: process_user_data_def is_empty_payload_def load_users_def process_users_def
        process_one_def as_user_dict_def email_absent_def dict_get_def)
  ultimately show ?thesis by blast
qed

lemma organizer_and_attendee_rows:
  "iterrows (organizer_and_attendee s)
     = [[(''comm_id'', PInt 1), (''organizer_email'', PStr ''a@x.com''), (''attendees'', PStr s)]]"
  by (simp add: iterrows_def organizer_and_attendee_def n_rows_def row_at_def)

text \<open>
  Claim C3 fails on the code. For an event whose organizer and attendee share one
  email, the organizer is processed first (line 180) and raises \<open>UnboundLocalError\<close>:
  the loop ends, no role relation, bridge row or user row is produced. \<open>json.loads\<close>
  is only assumed to read back what \<open>json.dumps\<close> wrote for the organizer.
\<close>

theorem organizer_and_attendee_raises:
  assumes "org = PDict [(''email'', PStr ''a@x.com''), (''name'', PStr ''a@x.com''),
                        (''location'', PNone), (''displayName'', PNone), (''phoneNumber'', PNone)]"
    and "dumps (PList [org]) \<noteq> ''[]''"
    and "loads (dumps (PList [org])) = Some (PList [org])"
  shows "comm_user_relations loads dumps (organizer_and_attendee s) = Inl UnboundLocalError"
proof -
  let ?row = "[(''comm_id'', PInt 1), (''organizer_email'', PStr ''a@x.com''), (''attendees'', PStr s)]"
  have info: "organizer_info ?row = org"
    by (simp add: organizer_info_def dict_get_def assms(1))
  have "process_user_data loads Map.empty (PInt 1) (PStr (dumps (PList [org]))) ''organizer''
          = Inl UnboundLocalError"
    using assms(2,3)
    by (simp add: process_user_data_def is_empty_payload_def load_users_def process_users_def
        process_one_def as_user_dict_def email_absent_def dict_get_def assms(1))
  then have "organizer_relations loads dumps Map.empty (PInt 1) ?row = Inl UnboundLocalError"
    unfolding organizer_relations_def info by (simp add: dict_get_def)
  then have "row_relations loads dumps Map.empty ?row = Inl UnboundLocalError"
    by (simp add: row_relations_def)
  then show ?thesis
    by (simp add: comm_user_relations_def organizer_and_attendee_rows)
qed

text \<open>
  Claim C3 on the organizer and attendee a@x.com of event 1.
\<close>

theorem organizer_and_attendee_raises_witness:
  "example_dumps (PList [example_organizer]) \<noteq> ''[]''
   \<and> example_loads (example_dumps (PList [example_organizer])) = Some (PList [example_organizer])
   \<and> example_loads attendees_json
        = Some (PList [PDict [(''email'', PStr ''a@x.com''), (''name'', PStr ''A'')]])
   \<and> comm_user_relations example_loads example_dumps (organizer_and_attendee attendees_json)
        = Inl UnboundLocalError"
proof -
  have d: "example_dumps (PList [example_organizer]) \<noteq> ''[]''"
    by (simp add: example_dumps_def organizer_json_def)
  have l: "example_loads (example_dumps (PList [example_organizer])) = Some (PList [example_organizer])"
    by (simp add: example_dumps_def example_loads_def)
  have a: "example_loads attendees_json
        = Some (PList [PDict [(''email'', PStr ''a@x.com''), (''name'', PStr ''A'')]])"
    by (simp add: example_loads_def attendees_json_def organizer_json_def)
  from organizer_and_attendee_raises [of example_organizer example_dumps example_loads attendees_json]
    example_organizer_def d l
  have "comm_user_relations example_loads example_dumps (organizer_and_attendee attendees_json)
          = Inl UnboundLocalError" by blast
  with d l a show ?thesis by blast
qed

section \<open>Fact assembler\<close>

lemma datetime_id_parsed: "datetime_id [PTimestamp ns] = [ns div 10 ^ 9]"
  by (simp add: datetime_id_def epoch_seconds_def)

text \<open>
  Claim C8 fails on the code. A start time that does not parse becomes NaT (line 42), and
  line 341 then gives \<open>datetime_id = -9223372037\<close>, the int64 of NaT divided by
  \<open>10**9\<close>, not 0. A start time that parses gives its whole seconds since the epoch.
\<close>

theorem unparseable_start_time_datetime_id:
  "coerce_datetimes (\<lambda>v. None) [(''comm_id'', [PInt 1]), (''start_time'', [PStr ''not a date''])]
     = [(''comm_id'', [PInt 1]), (''start_time'', [PNaN])]
   \<and> datetime_id [PNaN] = [- 9223372037]
   \<and> set_datetime_id [(''comm_id'', [PInt 1]), (''start_time'', [PNaN])] [(''comm_id'', [PInt 1])]
     = Inr [(''comm_id'', [PInt 1]), (''datetime_id'', [PInt (- 9223372037)])]
   \<and> datetime_id [PTimestamp 1700000000123456789] = [1700000000]"
  by (simp add: coerce_datetimes_def datetime_cols_def datetime_id_def epoch_seconds_def iNaT_def
      set_datetime_id_def bind_err_def getitem_def columns_named_def setitem_def)

text \<open>
  Claim C9 fails on the code. When one of the thirteen columns of lines 302-316 is
  absent from the input, the selection raises \<open>KeyError\<close>: the column is not
  omitted, the fact table is not built.
\<close>

theorem absent_fact_column_raises:
  assumes "c \<in> set fact_source_cols" and "c \<notin> set (map fst raw_df)"
  shows "fact_communication strftime raw_df = Inl KeyError"
proof -
  have "\<not> list_all (\<lambda>c. c \<in> set (map fst raw_df)) fact_source_cols"
    using assms by (auto simp: list_all_iff)
  then show ?thesis
    by (simp add: fact_communication_def fact_selected_def getitem_list_def bind_err_def)
qed

text \<open>
  Claim C9 on the example without \<open>audio_url\<close>: \<open>dim_audio\<close> is the two-row
  placeholder, and \<open>fact_communication\<close> raises.
\<close>

theorem absent_fact_column_raises_witness:
  "''audio_url'' \<in> set fact_source_cols
   \<and> ''audio_url'' \<notin> set (map fst without_audio)
   \<and> dim_audio without_audio
       = [(1, PStr ''http://dummy.com/audio1.mp3''), (2, PStr ''http://dummy.com/audio2.mp3'')]
   \<and> fact_communication example_strftime without_audio = Inl KeyError"
proof -
  have a: "''audio_url'' \<in> set fact_source_cols" by (simp add: fact_source_cols_def)
  have b: "''audio_url'' \<notin> set (map fst without_audio)"
    by (simp add: without_audio_def example_events_def)
  have c: "dim_audio without_audio
       = [(1, PStr ''http://dummy.com/audio1.mp3''), (2, PStr ''http://dummy.com/audio2.mp3'')]"
    by (simp add: dim_audio_def without_audio_def example_events_def)
  from absent_fact_column_raises [OF a b, of example_strftime] a b c show ?thesis by simp
qed

lemma columns_named_setitem_other:
  assumes "c \<noteq> t"
  shows "columns_named c (setitem f t ks) = columns_named c f"
proof -
  have "columns_named c (map (\<lambda>(k, old). if k = t then (k, ks) else (k, old)) f)
          = columns_named c f"
    using assms by (induction f) (auto simp: columns_named_def split: if_splits)
  moreover have "columns_named c (f @ [(t, ks)]) = columns_named c f"
    using assms by (simp add: columns_named_def)
  ultimately show ?thesis by (simp add: setitem_def)
qed

lemma getitem_list_error: "getitem_list df ls = Inl e \<Longrightarrow> e = KeyError"
  by (auto simp: getitem_list_def split: if_splits)

lemma raw_title_twice:
  assumes "fact_selected raw_df = Inr f"
  shows "\<exists>a b rest. columns_named ''raw_title'' f = a # b # rest"
proof -
  have all: "list_all (\<lambda>c. c \<in> set (map fst raw_df)) fact_source_cols"
    using assms by (auto simp: fact_selected_def bind_err_def getitem_list_def split: if_splits)
  have ne: "\<And>c. c \<in> set (map fst raw_df) \<Longrightarrow> rename_columns fact_rename (columns_named c raw_df) \<noteq> []"
    by (force simp: rename_columns_def columns_named_def filter_empty_conv)
  have t: "''event_title'' \<in> set (map fst raw_df)" and r: "''raw_title'' \<in> set (map fst raw_df)"
    using all by (simp_all add: fact_source_cols_def)
  have "columns_named ''raw_title'' f
          = rename_columns fact_rename (columns_named ''event_title'' raw_df)
            @ rename_columns fact_rename (columns_named ''raw_title'' raw_df)"
    unfolding fact_selected_eq[OF assms] columns_named_rename_concat
    by (simp add: fact_source_cols_def fact_rename_def)
  moreover obtain a as where "rename_columns fact_rename (columns_named ''event_title'' raw_df) = a # as"
    using ne[OF t] by (cases "rename_columns fact_rename (columns_named ''event_title'' raw_df)") auto
  moreover obtain b bs where "rename_columns fact_rename (columns_named ''raw_title'' raw_df) = b # bs"
    using ne[OF r] by (cases "rename_columns fact_rename (columns_named ''raw_title'' raw_df)") auto
  ultimately show ?thesis by (cases as) auto
qed

lemma set_fk_raw_title:
  assumes "columns_named ''raw_title'' f = a # b # rest"
  shows "set_fk ''subject_id'' ''raw_title'' m f = Inl TypeError"
  using assms by (simp add: set_fk_def bind_err_def getitem_def lookup_column_def split: prod.splits)

lemma set_fk_error:
  "set_fk target source m f = Inl e \<Longrightarrow> e = KeyError \<or> e = TypeError"
  by (auto simp: set_fk_def bind_err_def getitem_def lookup_column_def
      split: sum.splits list.splits selection.splits prod.splits)

lemma set_fk_frame:
  "set_fk target source m f = Inr f' \<Longrightarrow> \<exists>ks. f' = setitem f target ks"
  by (auto simp: set_fk_def bind_err_def split: sum.splits)

lemma fact_communication_fails:
  "fact_communication strftime raw_df = Inl KeyError
   \<or> fact_communication strftime raw_df = Inl TypeError"
proof (cases "fact_selected raw_df")
  case (Inl e)
  then have "e = KeyError"
    by (auto simp: fact_selected_def bind_err_def dest: getitem_list_error split: sum.splits)
  with Inl show ?thesis by (simp add: fact_communication_def bind_err_def)
next
  case (Inr f0)
  from raw_title_twice[OF Inr] obtain a b rest
    where two: "columns_named ''raw_title'' f0 = a # b # rest" by blast
  show ?thesis
  proof (cases "set_fk ''comm_type_id'' ''event_type'' (comm_type_mapping raw_df) f0")
    case (Inl e)
    with set_fk_error[OF Inl] Inr show ?thesis
      by (auto simp: fact_communication_def comm_type_id_stmt_def bind_err_def)
  next
    case f1: (Inr f1)
    from set_fk_frame[OF f1] obtain ks where "f1 = setitem f0 ''comm_type_id'' ks" by blast
    then have "columns_named ''raw_title'' f1 = a # b # rest"
      using two by (simp add: columns_named_setitem_other)
    then have "set_fk ''subject_id'' ''raw_title'' (subject_mapping raw_df) f1 = Inl TypeError"
      by (rule set_fk_raw_title)
    with Inr f1 show ?thesis
      by (simp add: fact_communication_def comm_type_id_stmt_def subject_id_stmt_def bind_err_def)
  qed
qed

lemma example_fact_selected:
  "fact_selected example_events = Inr (rename_columns fact_rename example_events)"
  by (simp add: fact_selected_def bind_err_def getitem_list_def fact_source_cols_def
      example_events_def columns_named_def)

text \<open>
  Claim C10 fails on the code. On every input the fact assembler raises: \<open>KeyError\<close>
  at line 302 when a column is absent, otherwise \<open>TypeError\<close> at line 329 at the
  latest, because the selection holds both \<open>event_title\<close> and \<open>raw_title\<close> and the
  rename of line 320 gives both the label \<open>raw_title\<close>, so
  \<open>fact_communication['raw_title']\<close> is a frame of two columns. No fact row with a
  \<open>subject_id\<close> exists; on the example, which has all thirteen columns, the error is
  the \<open>TypeError\<close>.
\<close>

theorem subject_id_never_resolved:
  "(fact_communication strftime raw_df = Inl KeyError
    \<or> fact_communication strftime raw_df = Inl TypeError)
   \<and> (\<exists>f. fact_selected example_events = Inr f)
   \<and> fact_communication example_strftime example_events = Inl TypeError"
proof -
  have sel: "\<exists>f. fact_selected example_events = Inr f" using example_fact_selected by blast
  have "''audio_url'' \<in> set (map fst example_events)" by (simp add: example_events_def)
  have all: "list_all (\<lambda>c. c \<in> set (map fst example_events)) fact_source_cols"
    by (simp add: fact_source_cols_def example_events_def)
  have "fact_communication example_strftime example_events \<noteq> Inl KeyError"
  proof -
    obtain f0 where f0: "fact_selected example_events = Inr f0" using sel by blast
    from raw_title_twice[OF f0] obtain a b rest
      where two: "columns_named ''raw_title'' f0 = a # b # rest" by blast
    have et: "getitem f0 ''event_type'' = Inr (Series [PStr ''Meeting'', PNaN, PStr ''Meeting''])"
      using f0 unfolding example_fact_selected
      by (auto simp: getitem_def columns_named_def rename_columns_def fact_rename_def example_events_def)
    then obtain f1 where f1: "set_fk ''comm_type_id'' ''event_type'' (comm_type_mapping example_events) f0 = Inr f1"
      by (simp add: set_fk_def bind_err_def lookup_column_def)
    from set_fk_frame[OF f1] obtain ks where "f1 = setitem f0 ''comm_type_id'' ks" by blast
    then have "columns_named ''raw_title'' f1 = a # b # rest"
      using two by (simp add: columns_named_setitem_other)
    then have "set_fk ''subject_id'' ''raw_title'' (subject_mapping example_events) f1 = Inl TypeError"
      by (rule set_fk_raw_title)
    with f0 f1 show ?thesis
      by (simp add: fact_communication_def comm_type_id_stmt_def subject_id_stmt_def bind_err_def)
  qed
  with fact_communication_fails[of example_strftime example_events]
  have "fact_communication example_strftime example_events = Inl TypeError" by blast
  with fact_communication_fails[of strftime raw_df] sel show ?thesis by blast
qed

section \<open>Foreign keys in the fact table\<close>

lemma fact_selected_sources:
  assumes "distinct (map fst raw_df)" and "fact_selected raw_df = Inr f0"
  shows "map_of raw_df ''event_type'' = Some vs \<Longrightarrow> getitem f0 ''event_type'' = Inr (Series vs)"
    and "map_of raw_df ''start_time'' = Some vs \<Longrightarrow> getitem f0 ''start_time'' = Inr (Series vs)"
    and "map_of raw_df ''audio_url'' = Some vs \<Longrightarrow> getitem f0 ''audio_url'' = Inr (Series vs)"
    and "map_of raw_df ''video_url'' = Some vs \<Longrightarrow> getitem f0 ''video_url'' = Inr (Series vs)"
    and "map_of raw_df ''transcript_url'' = Some vs \<Longrightarrow> getitem f0 ''transcript_url'' = Inr (Series vs)"
proof -
  have one: "\<And>c. map_of raw_df c = Some vs \<Longrightarrow> fact_rename c = c \<Longrightarrow>
      columns_named c f0 = rename_columns fact_rename (columns_named c raw_df) \<Longrightarrow>
      getitem f0 c = Inr (Series vs)"
    using columns_named_unique[OF assms(1)] by (simp add: rename_columns_def getitem_def)
  show "map_of raw_df ''event_type'' = Some vs \<Longrightarrow> getitem f0 ''event_type'' = Inr (Series vs)"
    by (rule one, assumption, simp add: fact_rename_def,
        unfold fact_selected_eq[OF assms(2)] columns_named_rename_concat,
        simp add: fact_source_cols_def fact_rename_def)
  show "map_of raw_df ''start_time'' = Some vs \<Longrightarrow> getitem f0 ''start_time'' = Inr (Series vs)"
    by (rule one, assumption, simp add: fact_rename_def,
        unfold fact_selected_eq[OF assms(2)] columns_named_rename_concat,
        simp add: fact_source_cols_def fact_rename_def)
  show "map_of raw_df ''audio_url'' = Some vs \<Longrightarrow> getitem f0 ''audio_url'' = Inr (Series vs)"
    by (rule one, assumption, simp add: fact_rename_def,
        unfold fact_selected_eq[OF assms(2)] columns_named_rename_concat,
        simp add: fact_source_cols_def fact_rename_def)
  show "map_of raw_df ''video_url'' = Some vs \<Longrightarrow> getitem f0 ''video_url'' = Inr (Series vs)"
    by (rule one, assumption, simp add: fact_rename_def,
        unfold fact_selected_eq[OF assms(2)] columns_named_rename_concat,
        simp add: fact_source_cols_def fact_rename_def)
  show "map_of raw_df ''transcript_url'' = Some vs \<Longrightarrow> getitem f0 ''transcript_url'' = Inr (Series vs)"
    by (rule one, assumption, simp add: fact_rename_def,
        unfold fact_selected_eq[OF assms(2)] columns_named_rename_concat,
        simp add: fact_source_cols_def fact_rename_def)
qed

lemma comm_type_id_stmt_runs:
  assumes "distinct (map fst raw_df)" and "fact_selected raw_df = Inr f0"
  shows "\<exists>f1. comm_type_id_stmt raw_df f0 = Inr f1"
proof -
  have "list_all (\<lambda>c. c \<in> set (map fst raw_df)) fact_source_cols"
    using assms(2) by (auto simp: fact_selected_def bind_err_def getitem_list_def split: if_splits)
  then have "''event_type'' \<in> set (map fst raw_df)" by (simp add: fact_source_cols_def)
  then obtain vs where "map_of raw_df ''event_type'' = Some vs"
    by (metis domD dom_map_of_conv_image_fst list.set_map)
  from fact_selected_sources(1)[OF assms this]
  show ?thesis by (simp add: comm_type_id_stmt_def set_fk_def bind_err_def lookup_column_def)
qed











lemma example_dedupe: "dedupe_comm_id example_events = Inr example_deduped"
  by (simp add: dedupe_comm_id_def example_deduped_def example_events_def keep_rows_def)




section \<open>Deduplicated input and the fact table\<close>

lemma fact_communication_type_error:
  assumes "distinct (map fst df)"
    and "list_all (\<lambda>c. c \<in> set (map fst df)) fact_source_cols"
  shows "fact_communication strftime df = Inl TypeError"
proof -
  obtain f0 where f0: "fact_selected df = Inr f0"
    using assms(2) by (simp add: fact_selected_def bind_err_def getitem_list_def)
  from comm_type_id_stmt_runs[OF assms(1) f0] obtain f1
    where f1: "comm_type_id_stmt df f0 = Inr f1" by blast
  from raw_title_twice[OF f0] obtain a b rest
    where two: "columns_named ''raw_title'' f0 = a # b # rest" by blast
  from f1 set_fk_frame obtain ks where "f1 = setitem f0 ''comm_type_id'' ks"
    unfolding comm_type_id_stmt_def by blast
  then have "columns_named ''raw_title'' f1 = a # b # rest"
    using two by (simp add: columns_named_setitem_other)
  then have "subject_id_stmt df f1 = Inl TypeError"
    unfolding subject_id_stmt_def by (rule set_fk_raw_title)
  with f0 f1 show ?thesis by (simp add: fact_communication_def bind_err_def)
qed

text \<open>
  Claim C7 fails on the code. For an input read from CSV with all thirteen columns of
  lines 302-316, lines 32-35 keep the first row of each \<open>comm_id\<close> without raising,
  and the identifiers left are distinct and are the set of the input's identifiers;
  but on that frame the fact assembler raises \<open>TypeError\<close> at line 329, so there is no
  \<open>fact_communication\<close> in which \<open>comm_id\<close> could be unique.
\<close>

theorem duplicate_comm_id_no_fact_table:
  assumes "map_of raw_df ''comm_id'' = Some ids"
    and "distinct (map fst raw_df)"
    and "list_all (\<lambda>(c, vs). length vs = length ids) raw_df"
    and "list_all (\<lambda>c. c \<in> set (map fst raw_df)) fact_source_cols"
  shows "\<exists>df. dedupe_comm_id raw_df = Inr df
           \<and> map_of df ''comm_id'' = Some (drop_duplicates ids)
           \<and> distinct (drop_duplicates ids)
           \<and> set (drop_duplicates ids) = set ids
           \<and> fact_communication strftime df = Inl TypeError"
proof -
  from comm_id_first_occurrence_kept[OF assms(1-3)] obtain df
    where df: "dedupe_comm_id raw_df = Inr df"
      "df = map (\<lambda>(c, vs). (c, keep_rows (first_seen [] ids) vs)) raw_df"
      "map_of df ''comm_id'' = Some (drop_duplicates ids)"
      "distinct (drop_duplicates ids)" "set (drop_duplicates ids) = set ids"
    by blast
  have names: "map fst df = map fst raw_df" unfolding df(2) by (induction raw_df) auto
  have "fact_communication strftime df = Inl TypeError"
    using assms(2,4) names by (intro fact_communication_type_error) simp_all
  with df show ?thesis by blast
qed

text \<open>
  Claim C7 on the example: two identifiers stay, and no fact table is built.
\<close>

theorem duplicate_comm_id_no_fact_table_witness:
  "map_of example_events ''comm_id'' = Some [PInt 1, PInt 2, PInt 1]
   \<and> distinct (map fst example_events)
   \<and> list_all (\<lambda>c. c \<in> set (map fst example_events)) fact_source_cols
   \<and> dedupe_comm_id example_events = Inr example_deduped
   \<and> map_of example_deduped ''comm_id'' = Some [PInt 1, PInt 2]
   \<and> fact_communication example_strftime example_deduped = Inl TypeError"
proof -
  have a: "map_of example_events ''comm_id'' = Some [PInt 1, PInt 2, PInt 1]"
    and b: "distinct (map fst example_events)"
    and c: "list_all (\<lambda>(c, vs). length vs = length [PInt 1, PInt 2, PInt 1]) example_events"
    and d: "list_all (\<lambda>c. c \<in> set (map fst example_events)) fact_source_cols"
    by (simp_all add: example_events_def fact_source_cols_def)
  from duplicate_comm_id_no_fact_table[OF a b c d, of example_strftime] example_dedupe
  have "fact_communication example_strftime example_deduped = Inl TypeError" by auto
  moreover have "map_of example_deduped ''comm_id'' = Some [PInt 1, PInt 2]"
    by (simp add: example_deduped_def example_events_def)
  ultimately show ?thesis using a b d example_dedupe by blast
qed

section \<open>Role bridge aggregator\<close>

text \<open>
  The aggregation of lines 198-205 by itself: on a non-empty relation list it gives one
  row per distinct key, in key order, each flag the maximum of that flag over the key's
  relations, which for flags 0 and 1 is their logical or.
\<close>

lemma max_flag_Max:
  assumes "xs \<noteq> []"
  shows "max_flag xs = Max (set xs)"
proof (cases xs)
  case Nil
  with assms show ?thesis by simp
next
  case (Cons a list)
  show ?thesis unfolding Cons max_flag.simps by (rule Max.set_eq_fold[symmetric])
qed

lemma max_flag_or:
  assumes "xs \<noteq> []" and "set xs \<subseteq> {0, 1}"
  shows "max_flag xs = (if 1 \<in> set xs then 1 else 0)"
proof -
  have m: "max_flag xs = Max (set xs)" using assms(1) by (rule max_flag_Max)
  have fin: "finite (set xs)" "set xs \<noteq> {}" using assms(1) by simp_all
  show ?thesis
  proof (cases "1 \<in> set xs")
    case True
    have ge: "1 \<le> Max (set xs)" using fin(1) True by (rule Max_ge)
    have "Max (set xs) \<in> set xs" using fin by (rule Max_in)
    with assms(2) have "Max (set xs) = 0 \<or> Max (set xs) = 1" by blast
    with ge have "Max (set xs) = 1" by linarith
    with m True show ?thesis by simp
  next
    case False
    have "Max (set xs) \<in> set xs" using fin by (rule Max_in)
    with False assms(2) m show ?thesis by auto
  qed
qed

lemma filter_eq_one: "distinct xs \<Longrightarrow> x \<in> set xs \<Longrightarrow> [k \<leftarrow> xs. k = x] = [x]"
  by (induction xs) (auto simp: filter_empty_conv)

lemma bridge_rows:
  fixes rels :: "('c::linorder) relation list"
  assumes "rels \<noteq> []"
  shows "\<exists>rows. bridge_comm_user rels = Inr rows
           \<and> distinct (map relation_key rows)
           \<and> sorted (map relation_key rows)
           \<and> set (map relation_key rows) = set (map relation_key rels)
           \<and> list_all (\<lambda>row.
                 isAttendee row = max_flag (map isAttendee (group_rows (relation_key row) rels))
               \<and> isParticipant row = max_flag (map isParticipant (group_rows (relation_key row) rels))
               \<and> isSpeaker row = max_flag (map isSpeaker (group_rows (relation_key row) rels))
               \<and> isOrganiser row = max_flag (map isOrganiser (group_rows (relation_key row) rels)))
               rows"
proof -
  let ?keys = "sort (remdups (map (\<lambda>r. (comm_id r, user_id r)) rels))"
  let ?row = "\<lambda>k. \<lparr> comm_id = fst k, user_id = snd k,
                       isAttendee = max_flag (map isAttendee (group_rows k rels)),
                       isParticipant = max_flag (map isParticipant (group_rows k rels)),
                       isSpeaker = max_flag (map isSpeaker (group_rows k rels)),
                       isOrganiser = max_flag (map isOrganiser (group_rows k rels)) \<rparr>"
  have run: "bridge_comm_user rels = Inr (map ?row ?keys)"
    using assms by (simp add: bridge_comm_user_def)
  have keys: "map relation_key (map ?row ?keys) = ?keys"
    by (simp add: relation_key_def comp_def)
  have same: "(\<lambda>r. (comm_id r, user_id r)) = (relation_key :: 'c relation \<Rightarrow> _)"
    by (rule ext) (simp add: relation_key_def)
  have flags: "list_all (\<lambda>row.
                 isAttendee row = max_flag (map isAttendee (group_rows (relation_key row) rels))
               \<and> isParticipant row = max_flag (map isParticipant (group_rows (relation_key row) rels))
               \<and> isSpeaker row = max_flag (map isSpeaker (group_rows (relation_key row) rels))
               \<and> isOrganiser row = max_flag (map isOrganiser (group_rows (relation_key row) rels)))
               (map ?row ?keys)"
    by (simp add: list_all_iff relation_key_def)
  have "distinct (map relation_key (map ?row ?keys))
        \<and> sorted (map relation_key (map ?row ?keys))
        \<and> set (map relation_key (map ?row ?keys)) = set (map relation_key rels)"
    unfolding keys by (simp add: same)
  with run flags show ?thesis by blast
qed

lemma bridge_organizer_and_attendee:
  fixes rels :: "('c::linorder) relation list"
  assumes org: "make_relation c u ''organizer'' \<in> set rels"
    and att: "make_relation c u ''attendees'' \<in> set rels"
    and flags: "list_all (\<lambda>r. isAttendee r \<in> {0, 1} \<and> isOrganiser r \<in> {0, 1}) rels"
  shows "\<exists>rows. bridge_comm_user rels = Inr rows
           \<and> [row \<leftarrow> rows. relation_key row = (c, u)]
               = [\<lparr> comm_id = c, user_id = u,
                    isAttendee = 1,
                    isParticipant = max_flag (map isParticipant (group_rows (c, u) rels)),
                    isSpeaker = max_flag (map isSpeaker (group_rows (c, u) rels)),
                    isOrganiser = 1 \<rparr>]"
proof -
  let ?keys = "sort (remdups (map (\<lambda>r. (comm_id r, user_id r)) rels))"
  let ?row = "\<lambda>k. \<lparr> comm_id = fst k, user_id = snd k,
                       isAttendee = max_flag (map isAttendee (group_rows k rels)),
                       isParticipant = max_flag (map isParticipant (group_rows k rels)),
                       isSpeaker = max_flag (map isSpeaker (group_rows k rels)),
                       isOrganiser = max_flag (map isOrganiser (group_rows k rels)) \<rparr>"
  have ne: "rels \<noteq> []" using org by auto
  have run: "bridge_comm_user rels = Inr (map ?row ?keys)"
    using ne by (simp add: bridge_comm_user_def)
  have key_in: "(c, u) \<in> set ?keys"
    using org by (force simp: make_relation_def)
  have dist: "distinct ?keys" by simp
  have rk: "\<And>k. (relation_key (?row k) = (c, u)) = (k = (c, u))"
    by (auto simp: relation_key_def)
  have f1: "[row \<leftarrow> map ?row ?keys. relation_key row = (c, u)] = map ?row [k \<leftarrow> ?keys. k = (c, u)]"
    unfolding filter_map comp_def rk ..
  have f2: "[k \<leftarrow> ?keys. k = (c, u)] = [(c, u)]"
    using dist key_in by (rule filter_eq_one)
  have one: "[row \<leftarrow> map ?row ?keys. relation_key row = (c, u)] = [?row (c, u)]"
    unfolding f1 f2 by simp
  have ga: "make_relation c u ''attendees'' \<in> set (group_rows (c, u) rels)"
    and go: "make_relation c u ''organizer'' \<in> set (group_rows (c, u) rels)"
    using org att by (simp_all add: group_rows_def make_relation_def)
  have sub: "set (group_rows (c, u) rels) \<subseteq> set rels" by (auto simp: group_rows_def)
  have a1: "max_flag (map isAttendee (group_rows (c, u) rels)) = 1"
  proof -
    have "1 \<in> set (map isAttendee (group_rows (c, u) rels))"
      using ga by (force simp: make_relation_def)
    moreover have "set (map isAttendee (group_rows (c, u) rels)) \<subseteq> {0, 1}"
      using flags sub by (auto simp: list_all_iff)
    moreover have "map isAttendee (group_rows (c, u) rels) \<noteq> []" using ga by auto
    ultimately show ?thesis using max_flag_or[of "map isAttendee (group_rows (c, u) rels)"] by presburger
  qed
  have o1: "max_flag (map isOrganiser (group_rows (c, u) rels)) = 1"
  proof -
    have "1 \<in> set (map isOrganiser (group_rows (c, u) rels))"
      using go by (force simp: make_relation_def)
    moreover have "set (map isOrganiser (group_rows (c, u) rels)) \<subseteq> {0, 1}"
      using flags sub by (auto simp: list_all_iff)
    moreover have "map isOrganiser (group_rows (c, u) rels) \<noteq> []" using go by auto
    ultimately show ?thesis using max_flag_or[of "map isOrganiser (group_rows (c, u) rels)"] by presburger
  qed
  show ?thesis using run one a1 o1 by simp
qed

end
